theory Spec2Isabelle
  imports Main "HOL-Library.Word" "HOL-Library.List_Lexorder" "HOL-Library.Multiset"
begin

unbundle bit_operations_syntax

section \<open>FSTDict: a shallow embedding of \<^verbatim>\<open>fst.h\<close>\<close>

text \<open>
  The header \<^verbatim>\<open>fst.h\<close> builds a minimal acyclic subsequential transducer (MAST) from
  (input, output) pairs, compiles it to a linear program of 32-bit cells, interprets that
  program, and serialises it. The functions below follow the C++ text function by function.

  Conventions of the embedding.
  \<^item> \<^verbatim>\<open>uint8_t\<close>, \<^verbatim>\<open>uint16_t\<close>, \<^verbatim>\<open>int32_t\<close>/\<^verbatim>\<open>uint32_t\<close>, \<^verbatim>\<open>int64_t\<close> and \<^verbatim>\<open>size_t\<close> are
    words of 8, 16, 32, 64 and 64 bits; \<open>sint\<close> reads a word as two's complement.
    A \<^verbatim>\<open>std::string\<close> is the list of its bytes.
  \<^item> The C++ \<^verbatim>\<open>int\<close> registers of the interpreter are HOL integers; an addition that leaves
    the 32-bit range is the fault \<open>Overflow\<close>.
  \<^item> Every way the C++ can leave the defined path is a value of type \<open>error\<close>:
    \<open>OutOfRange\<close> is the exception \<^verbatim>\<open>std::out_of_range\<close> thrown by \<^verbatim>\<open>unordered_map::at\<close>;
    \<open>AllocFailed\<close> is the exception \<^verbatim>\<open>std::bad_alloc\<close> or \<^verbatim>\<open>std::length_error\<close> thrown by
    \<^verbatim>\<open>vector::reserve\<close>;
    the others are behaviour the language leaves undefined, named by their cause
    (\<open>EndDeref\<close>: dereferencing an \<^verbatim>\<open>end()\<close> iterator; \<open>OutOfBounds\<close>: reading or writing a
    vector or string cell outside its size; \<open>Uninitialised\<close>: reading a variable that was
    never assigned; \<open>InactiveMember\<close>: reading the member of the \<^verbatim>\<open>Instruction\<close> union that
    was not the one last written).
\<close>

type_synonym byte = "8 word"
type_synonym int32 = "32 word"

datatype error =
  OutOfRange | AllocFailed | EndDeref | OutOfBounds | Uninitialised | Overflow | InactiveMember

fun bindE :: "'e + 'a \<Rightarrow> ('a \<Rightarrow> 'e + 'b) \<Rightarrow> 'e + 'b" where
  "bindE (Inl e) f = Inl e"
| "bindE (Inr x) f = f x"

lemma bindE_Inr: "bindE m f = Inr y \<longleftrightarrow> (\<exists>x. m = Inr x \<and> f x = Inr y)"
  by (cases m) auto

lemma bindE_weak_cong: "m = m' \<Longrightarrow> bindE m f = bindE m' f"
  by simp

subsection \<open>\<^verbatim>\<open>WriteUint\<close> and \<^verbatim>\<open>ReadUint\<close>\<close>

text \<open>
  An output stream is the list of bytes written so far; an input stream is the list of
  bytes still to be read.

  \<^verbatim>\<open>WriteUint\<close> runs \<^verbatim>\<open>sizeof(T)\<close> times: it writes the low byte of \<^verbatim>\<open>value\<close>, then divides
  \<^verbatim>\<open>value\<close> by 256. The division is done after integer promotion, so it is the shift
  \<open>drop_bit 8\<close> for every width (for \<^verbatim>\<open>uint8_t\<close> the quotient is 0).

  \<^verbatim>\<open>ReadUint\<close> runs \<^verbatim>\<open>sizeof(T)\<close> times: it multiplies \<^verbatim>\<open>value\<close> by 256, reads one byte into
  the local \<^verbatim>\<open>buf\<close> and ors \<^verbatim>\<open>buf\<close> into \<^verbatim>\<open>value\<close>. \<^verbatim>\<open>buf\<close> is declared before the loop without
  a value (\<open>None\<close> until a byte was read into it). At the end of the stream \<^verbatim>\<open>read\<close> stores
  nothing: \<^verbatim>\<open>buf\<close> keeps the byte of the previous pass, or is read uninitialised in the
  first pass.
\<close>

fun write_bytes :: "nat \<Rightarrow> 'a::len word \<Rightarrow> byte list" where
  "write_bytes 0 v = []"
| "write_bytes (Suc n) v = ucast v # write_bytes n (drop_bit 8 v)"

definition WriteUint :: "'a::len word \<Rightarrow> byte list" where
  "WriteUint v = write_bytes (LENGTH('a) div 8) v"

fun read_bytes ::
  "nat \<Rightarrow> 'a::len word \<Rightarrow> byte option \<Rightarrow> byte list \<Rightarrow> error + ('a word \<times> byte list)" where
  "read_bytes 0 v buf bs = Inr (v, bs)"
| "read_bytes (Suc n) v buf [] =
     (case buf of
        None \<Rightarrow> Inl Uninitialised
      | Some b \<Rightarrow> read_bytes n (v * 256 OR ucast b) buf [])"
| "read_bytes (Suc n) v buf (b # bs) = read_bytes n (v * 256 OR ucast b) (Some b) bs"

definition ReadUint :: "byte list \<Rightarrow> error + ('a::len word \<times> byte list)" where
  "ReadUint bs = read_bytes (LENGTH('a) div 8) 0 None bs"

subsection \<open>Instructions, programs and configurations\<close>

text \<open>
  \<^verbatim>\<open>enum class Operation : uint8_t\<close> names six of the 256 values its underlying byte can
  hold; \<open>opcode\<close> gives the byte of a name and \<open>decode\<close> the name of a byte, if it has one.

  \<^verbatim>\<open>union Instruction\<close> is a cell that was last written either through \<^verbatim>\<open>ops\<close> (opcode,
  character, 16-bit jump) or through \<^verbatim>\<open>v32\<close>. Every cell the code stores has all three
  \<^verbatim>\<open>ops\<close> fields or \<^verbatim>\<open>v32\<close> assigned just before the \<^verbatim>\<open>push_back\<close>, so a stored cell is one
  of the two constructors below.
\<close>

datatype Operation = Accept | AcceptBreak | Match | Break | Output | OutputBreak

fun opcode :: "Operation \<Rightarrow> byte" where
  "opcode Accept = 1"
| "opcode AcceptBreak = 2"
| "opcode Match = 3"
| "opcode Break = 4"
| "opcode Output = 5"
| "opcode OutputBreak = 6"

definition decode :: "byte \<Rightarrow> Operation option" where
  "decode b =
     (if b = 1 then Some Accept else if b = 2 then Some AcceptBreak
      else if b = 3 then Some Match else if b = 4 then Some Break
      else if b = 5 then Some Output else if b = 6 then Some OutputBreak
      else None)"

datatype Instruction = Ops byte byte "16 word" | V32 int32

fun ops_of :: "Instruction \<Rightarrow> error + (byte \<times> byte \<times> 16 word)" where
  "ops_of (Ops op ch jump) = Inr (op, ch, jump)"
| "ops_of (V32 v) = Inl InactiveMember"

fun v32_of :: "Instruction \<Rightarrow> error + int32" where
  "v32_of (V32 v) = Inr v"
| "v32_of (Ops op ch jump) = Inl InactiveMember"

record Configuration =
  pcC :: int
  hdC :: int
  outC :: "int32 list"

record FST =
  prog :: "Instruction list"
  data :: "int32 list"

subsection \<open>The interpreter: \<^verbatim>\<open>FST::run\<close>\<close>

text \<open>
  The registers of \<^verbatim>\<open>run\<close>: \<^verbatim>\<open>snap\<close>, \<^verbatim>\<open>pc\<close>, \<^verbatim>\<open>hd\<close>, and the two locals that are declared
  without a value, \<^verbatim>\<open>out\<close> and \<^verbatim>\<open>op\<close> (\<open>None\<close> until first assigned).

  One pass through the loop body ends in one of three ways: \<^verbatim>\<open>continue\<close>, \<^verbatim>\<open>goto L_END\<close>, or
  \<^verbatim>\<open>return snap\<close> (with \<^verbatim>\<open>*accept\<close> still false).
\<close>

record Regs =
  snapR :: "Configuration list"
  pcR :: int
  hdR :: int
  outR :: "int32 option"
  opR :: "byte option"

datatype outcome = Continue Regs | L_END Regs | Return "Configuration list"

definition int_add :: "int \<Rightarrow> int \<Rightarrow> error + int" where
  "int_add a b = (if - (2 ^ 31) \<le> a + b \<and> a + b < 2 ^ 31 then Inr (a + b) else Inl Overflow)"

definition cell :: "Instruction list \<Rightarrow> int \<Rightarrow> error + Instruction" where
  "cell p i = (if 0 \<le> i \<and> i < int (length p) then Inr (p ! nat i) else Inl OutOfBounds)"

definition raw :: "Instruction list \<Rightarrow> int \<Rightarrow> error + int32" where
  "raw p i = bindE (cell p i) v32_of"

text \<open>
  \<^verbatim>\<open>ch != input[hd]\<close> compares a \<^verbatim>\<open>uint8_t\<close> with a \<^verbatim>\<open>char\<close> after promoting both to \<^verbatim>\<open>int\<close>.
  Whether \<^verbatim>\<open>char\<close> is signed is implementation-defined; \<open>char_int\<close> takes it as signed, as
  on x86-64, so that a byte of the query above 127 is a negative number.
\<close>

definition char_int :: "byte \<Rightarrow> int" where
  "char_int c = sint c"

text \<open>The jump taken on a matching byte, from the cell at \<open>pc\<close> (lines 323-329, 352-358).\<close>

definition take_jump :: "Instruction list \<Rightarrow> 16 word \<Rightarrow> int \<Rightarrow> error + int" where
  "take_jump p jump pc =
     (if jump > 0 then int_add pc (uint jump)
      else bindE (int_add pc 1) (\<lambda>pc1.
           bindE (raw p pc1) (\<lambda>v. int_add pc1 (sint v))))"

text \<open>\<^verbatim>\<open>case Operation::Match: case Operation::Break:\<close>\<close>

definition run_match ::
  "FST \<Rightarrow> byte list \<Rightarrow> Regs \<Rightarrow> Operation \<Rightarrow> byte \<Rightarrow> 16 word \<Rightarrow> error + outcome" where
  "run_match F input r op ch jump =
     (if hdR r = int (length input) then Inr (L_END r)
      else if uint ch \<noteq> char_int (input ! nat (hdR r)) then
        (if op = Break then Inr (Return (snapR r))
         else bindE (if jump = 0 then int_add (pcR r) 1 else Inr (pcR r)) (\<lambda>pc1.
              bindE (int_add pc1 1) (\<lambda>pc2.
              Inr (Continue (r\<lparr>pcR := pc2\<rparr>)))))
      else bindE (take_jump (prog F) jump (pcR r)) (\<lambda>pc'.
           bindE (int_add (hdR r) 1) (\<lambda>hd'.
           Inr (Continue (r\<lparr>pcR := pc', hdR := hd'\<rparr>)))))"

text \<open>\<^verbatim>\<open>case Operation::Output: case Operation::OutputBreak:\<close>\<close>

definition run_output ::
  "FST \<Rightarrow> byte list \<Rightarrow> Regs \<Rightarrow> Operation \<Rightarrow> byte \<Rightarrow> 16 word \<Rightarrow> error + outcome" where
  "run_output F input r op ch jump =
     (if hdR r = int (length input) then Inr (L_END r)
      else if uint ch \<noteq> char_int (input ! nat (hdR r)) then
        (if op = OutputBreak then Inr (Return (snapR r))
         else bindE (if jump = 0 then int_add (pcR r) 1 else Inr (pcR r)) (\<lambda>pc1.
              bindE (int_add pc1 1) (\<lambda>pc2.
              bindE (int_add pc2 1) (\<lambda>pc3.
              Inr (Continue (r\<lparr>pcR := pc3\<rparr>))))))
      else bindE (int_add (pcR r) 1) (\<lambda>pc1.
           bindE (raw (prog F) pc1) (\<lambda>v.
           bindE (take_jump (prog F) jump pc1) (\<lambda>pc'.
           bindE (int_add (hdR r) 1) (\<lambda>hd'.
           Inr (Continue (r\<lparr>pcR := pc', hdR := hd', outR := Some v\<rparr>)))))))"

text \<open>
  \<^verbatim>\<open>c.out.insert(c.out.end(), data.begin() + from, data.begin() + to)\<close>: the range must lie
  inside \<^verbatim>\<open>data\<close>.
\<close>

definition data_range :: "int32 list \<Rightarrow> int32 \<Rightarrow> int32 \<Rightarrow> error + int32 list" where
  "data_range d from to =
     (if 0 \<le> sint from \<and> sint from \<le> sint to \<and> sint to \<le> int (length d)
      then Inr (take (nat (sint to) - nat (sint from)) (drop (nat (sint from)) d))
      else Inl OutOfBounds)"

text \<open>The outputs of a configuration and the program counter after them; \<open>pc1\<close> is \<^verbatim>\<open>pc + 1\<close>.\<close>

definition accept_outputs :: "FST \<Rightarrow> Regs \<Rightarrow> byte \<Rightarrow> int \<Rightarrow> error + (int32 list \<times> int)" where
  "accept_outputs F r ch pc1 =
     (if ch = 0 then
        (case outR r of None \<Rightarrow> Inl Uninitialised | Some v \<Rightarrow> Inr ([v], pc1))
      else bindE (raw (prog F) pc1) (\<lambda>to.
           bindE (int_add pc1 1) (\<lambda>pc2.
           bindE (raw (prog F) pc2) (\<lambda>from.
           bindE (data_range (data F) from to) (\<lambda>outs.
           bindE (int_add pc2 1) (\<lambda>pc3.
           Inr (outs, pc3)))))))"

text \<open>\<^verbatim>\<open>case Operation::Accept: case Operation::AcceptBreak:\<close>\<close>

definition run_accept :: "FST \<Rightarrow> byte list \<Rightarrow> Regs \<Rightarrow> Operation \<Rightarrow> byte \<Rightarrow> error + outcome" where
  "run_accept F input r op ch =
     bindE (int_add (pcR r) 1) (\<lambda>pc1.
     bindE (accept_outputs F r ch pc1) (\<lambda>(outs, pc').
     (let c = \<lparr>pcC = pcR r, hdC = hdR r, outC = outs\<rparr>;
          r' = r\<lparr>snapR := snapR r @ [c], pcR := pc'\<rparr>
      in if op = AcceptBreak \<or> hdR r = int (length input) then Inr (L_END r')
         else Inr (Continue r'))))"

text \<open>The loop body: fetch the cell at \<open>pc\<close>, assign \<^verbatim>\<open>op\<close>, switch on it.\<close>

definition run_body :: "FST \<Rightarrow> byte list \<Rightarrow> Regs \<Rightarrow> error + outcome" where
  "run_body F input r =
     bindE (cell (prog F) (pcR r)) (\<lambda>code.
     bindE (ops_of code) (\<lambda>(opb, ch, jump).
     (let r1 = r\<lparr>opR := Some opb\<rparr> in
      case decode opb of
        Some Match \<Rightarrow> run_match F input r1 Match ch jump
      | Some Break \<Rightarrow> run_match F input r1 Break ch jump
      | Some Output \<Rightarrow> run_output F input r1 Output ch jump
      | Some OutputBreak \<Rightarrow> run_output F input r1 OutputBreak ch jump
      | Some Accept \<Rightarrow> run_accept F input r1 Accept ch
      | Some AcceptBreak \<Rightarrow> run_accept F input r1 AcceptBreak ch
      | None \<Rightarrow> Inr (Return (snapR r1)))))"

text \<open>
  The loop test \<^verbatim>\<open>pc < prog.size() && hd <= input.size()\<close> converts the two \<^verbatim>\<open>int\<close>s to
  \<^verbatim>\<open>size_t\<close>: a negative value becomes a number above every vector size, so the test fails.
\<close>

definition run_cond :: "FST \<Rightarrow> byte list \<Rightarrow> Regs \<Rightarrow> bool" where
  "run_cond F input r =
     (0 \<le> pcR r \<and> pcR r < int (length (prog F)) \<and> 0 \<le> hdR r \<and> hdR r \<le> int (length input))"

text \<open>The code after the label \<^verbatim>\<open>L_END\<close>; the result is \<^verbatim>\<open>snap\<close> and \<^verbatim>\<open>*accept\<close>.\<close>

definition l_end :: "byte list \<Rightarrow> Regs \<Rightarrow> error + (Configuration list \<times> bool)" where
  "l_end input r =
     (if hdR r \<noteq> int (length input) then Inr (snapR r, False)
      else case opR r of
        None \<Rightarrow> Inl Uninitialised
      | Some opb \<Rightarrow>
          (if opb \<noteq> opcode Accept \<and> opb \<noteq> opcode AcceptBreak then Inr (snapR r, False)
           else Inr (snapR r, True)))"

text \<open>
  The measure that bounds the loop: the bytes of the query still ahead of \<open>hd\<close>, each
  weighted by one more than the program length, plus the cells still ahead of \<open>pc\<close>.
\<close>

definition run_measure :: "FST \<Rightarrow> byte list \<Rightarrow> Regs \<Rightarrow> nat" where
  "run_measure F input r =
     (if run_cond F input r
      then Suc ((length input - nat (hdR r)) * Suc (length (prog F)) +
                (length (prog F) - nat (pcR r)))
      else 0)"

lemma int_add_Inr:
  "int_add a b = Inr c \<longleftrightarrow> c = a + b \<and> - (2 ^ 31) \<le> a + b \<and> a + b < 2 ^ 31"
  by (auto simp: int_add_def)

lemma run_match_progress:
  assumes "run_match F input r op ch jump = Inr (Continue r')"
    and "0 \<le> hdR r" and "hdR r \<le> int (length input)"
  shows "(hdR r' = hdR r + 1 \<and> hdR r < int (length input)) \<or>
         (hdR r' = hdR r \<and> pcR r < pcR r')"
  using assms
  by (auto simp: run_match_def bindE_Inr int_add_Inr split: if_splits)

lemma run_output_progress:
  assumes "run_output F input r op ch jump = Inr (Continue r')"
    and "0 \<le> hdR r" and "hdR r \<le> int (length input)"
  shows "(hdR r' = hdR r + 1 \<and> hdR r < int (length input)) \<or>
         (hdR r' = hdR r \<and> pcR r < pcR r')"
  using assms
  by (auto simp: run_output_def bindE_Inr int_add_Inr split: if_splits)

lemma accept_outputs_pc:
  "accept_outputs F r ch pc1 = Inr (outs, pc') \<Longrightarrow> pc1 \<le> pc'"
  by (auto simp: accept_outputs_def bindE_Inr int_add_Inr split: if_splits option.splits)

lemma run_accept_progress:
  assumes "run_accept F input r op ch = Inr (Continue r')"
  shows "hdR r' = hdR r \<and> pcR r < pcR r'"
  using assms
  by (auto simp: run_accept_def bindE_Inr int_add_Inr Let_def split: if_splits
      dest!: accept_outputs_pc)

text \<open>
  Every pass that ends in \<^verbatim>\<open>continue\<close> either consumed one byte of the query or left \<open>hd\<close>
  alone and moved \<open>pc\<close> forward.
\<close>

lemma run_body_progress:
  assumes "run_body F input r = Inr (Continue r')"
    and "0 \<le> hdR r" and "hdR r \<le> int (length input)"
  shows "(hdR r' = hdR r + 1 \<and> hdR r < int (length input)) \<or>
         (hdR r' = hdR r \<and> pcR r < pcR r')"
proof -
  from assms(1) obtain code opb ch jump where
    s: "(case decode opb of
        Some Match \<Rightarrow> run_match F input (r\<lparr>opR := Some opb\<rparr>) Match ch jump
      | Some Break \<Rightarrow> run_match F input (r\<lparr>opR := Some opb\<rparr>) Break ch jump
      | Some Output \<Rightarrow> run_output F input (r\<lparr>opR := Some opb\<rparr>) Output ch jump
      | Some OutputBreak \<Rightarrow> run_output F input (r\<lparr>opR := Some opb\<rparr>) OutputBreak ch jump
      | Some Accept \<Rightarrow> run_accept F input (r\<lparr>opR := Some opb\<rparr>) Accept ch
      | Some AcceptBreak \<Rightarrow> run_accept F input (r\<lparr>opR := Some opb\<rparr>) AcceptBreak ch
      | None \<Rightarrow> Inr (Return (snapR (r\<lparr>opR := Some opb\<rparr>)))) = Inr (Continue r')"
    by (auto simp: run_body_def bindE_Inr Let_def)
  let ?r = "r\<lparr>opR := Some opb\<rparr>"
  have h: "0 \<le> hdR ?r" "hdR ?r \<le> int (length input)"
    using assms(2,3) by simp_all
  show ?thesis
  proof (cases "decode opb")
    case None
    with s show ?thesis by simp
  next
    case (Some op)
    show ?thesis
    proof (cases op)
      case Accept
      with s Some run_accept_progress[of F input ?r Accept ch r'] show ?thesis by simp
    next
      case AcceptBreak
      with s Some run_accept_progress[of F input ?r AcceptBreak ch r'] show ?thesis by simp
    next
      case Match
      with s Some run_match_progress[of F input ?r Match ch jump r', OF _ h]
      show ?thesis by simp
    next
      case Break
      with s Some run_match_progress[of F input ?r Break ch jump r', OF _ h]
      show ?thesis by simp
    next
      case Output
      with s Some run_output_progress[of F input ?r Output ch jump r', OF _ h]
      show ?thesis by simp
    next
      case OutputBreak
      with s Some run_output_progress[of F input ?r OutputBreak ch jump r', OF _ h]
      show ?thesis by simp
    qed
  qed
qed

lemma run_measure_decreases:
  assumes "run_cond F input r" and "run_body F input r = Inr (Continue r')"
  shows "run_measure F input r' < run_measure F input r"
proof (cases "run_cond F input r'")
  case False
  with assms(1) show ?thesis by (simp add: run_measure_def)
next
  case True
  from assms(1) have c: "0 \<le> pcR r" "pcR r < int (length (prog F))"
      "0 \<le> hdR r" "hdR r \<le> int (length input)"
    by (auto simp: run_cond_def)
  from True have c': "0 \<le> pcR r'" "pcR r' < int (length (prog F))"
      "0 \<le> hdR r'" "hdR r' \<le> int (length input)"
    by (auto simp: run_cond_def)
  from run_body_progress[OF assms(2) c(3,4)]
  consider (byte) "hdR r' = hdR r + 1" "hdR r < int (length input)"
    | (cell) "hdR r' = hdR r" "pcR r < pcR r'"
    by blast
  then show ?thesis
  proof cases
    case byte
    define L where "L = length input - nat (hdR r')"
    have e: "length input - nat (hdR r) = Suc L"
      using byte c c' by (simp add: L_def)
    have "length (prog F) - nat (pcR r') < Suc (length (prog F))"
      by simp
    then show ?thesis
      using assms(1) True e by (simp add: run_measure_def L_def[symmetric])
  next
    case cell
    define K where "K = (length input - nat (hdR r)) * Suc (length (prog F))"
    define x where "x = length (prog F) - nat (pcR r)"
    define x' where "x' = length (prog F) - nat (pcR r')"
    have lt: "x' < x"
      using cell c c' unfolding x_def x'_def by linarith
    have m: "run_measure F input r = Suc (K + x)"
      using assms(1) unfolding run_measure_def K_def x_def by simp
    have m': "run_measure F input r' = Suc (K + x')"
      using True cell(1) unfolding run_measure_def K_def x'_def by simp
    show ?thesis
      unfolding m m' using lt by simp
  qed
qed

text \<open>The \<^verbatim>\<open>while\<close> loop of \<^verbatim>\<open>run\<close>, followed by the code at \<^verbatim>\<open>L_END\<close>.\<close>

function run_loop :: "FST \<Rightarrow> byte list \<Rightarrow> Regs \<Rightarrow> error + (Configuration list \<times> bool)" where
  "run_loop F input r =
     (if run_cond F input r then
        (case run_body F input r of
           Inl e \<Rightarrow> Inl e
         | Inr (Continue r') \<Rightarrow> run_loop F input r'
         | Inr (L_END r') \<Rightarrow> l_end input r'
         | Inr (Return s) \<Rightarrow> Inr (s, False))
      else l_end input r)"
  by pat_completeness auto
termination
  by (relation "measure (\<lambda>(F, input, r). run_measure F input r)")
     (auto simp: run_measure_decreases)

declare run_loop.simps [simp del]

definition run_init :: Regs where
  "run_init = \<lparr>snapR = [], pcR = 0, hdR = 0, outR = None, opR = None\<rparr>"

definition run :: "FST \<Rightarrow> byte list \<Rightarrow> error + (Configuration list \<times> bool)" where
  "run F input = run_loop F input run_init"

text \<open>
  The same loop with a bound on the number of passes: \<open>None\<close> when the bound is used up
  before the loop is left.
\<close>

fun run_fuel ::
  "nat \<Rightarrow> FST \<Rightarrow> byte list \<Rightarrow> Regs \<Rightarrow> (error + (Configuration list \<times> bool)) option" where
  "run_fuel 0 F input r = None"
| "run_fuel (Suc n) F input r =
     (if run_cond F input r then
        (case run_body F input r of
           Inl e \<Rightarrow> Some (Inl e)
         | Inr (Continue r') \<Rightarrow> run_fuel n F input r'
         | Inr (L_END r') \<Rightarrow> Some (l_end input r')
         | Inr (Return s) \<Rightarrow> Some (Inr (s, False)))
      else Some (l_end input r))"

subsection \<open>The queries\<close>

definition Search :: "FST \<Rightarrow> byte list \<Rightarrow> error + int32 list" where
  "Search F input =
     bindE (run F input) (\<lambda>(snap, accept).
       if \<not> accept then Inr []
       else if length snap = 0 then Inr []
       else Inr (outC (last snap)))"

text \<open>\<^verbatim>\<open>PrefixSearch\<close> returns the outputs and stores the length through its pointer argument.\<close>

definition PrefixSearch :: "FST \<Rightarrow> byte list \<Rightarrow> error + (int32 list \<times> int)" where
  "PrefixSearch F input =
     bindE (run F input) (\<lambda>(snap, dummy).
       if length snap = 0 then Inr ([], - 1)
       else Inr (outC (last snap), hdC (last snap)))"

text \<open>\<^verbatim>\<open>CommonPrefixSearch\<close> returns the outputs and fills \<^verbatim>\<open>*lens\<close>.\<close>

definition CommonPrefixSearch :: "FST \<Rightarrow> byte list \<Rightarrow> error + (int32 list list \<times> int list)" where
  "CommonPrefixSearch F input =
     bindE (run F input) (\<lambda>(snap, dummy).
       if length snap = 0 then Inr ([], [])
       else Inr (map outC snap, map hdC snap))"

subsection \<open>The codec: \<^verbatim>\<open>FST::Write\<close> and \<^verbatim>\<open>FST::Read\<close>\<close>

text \<open>
  The result of \<^verbatim>\<open>Write\<close> is its return value and the bytes it wrote. \<open>prepend bs r\<close> is
  the result \<open>r\<close> of the rest of the function after the bytes \<open>bs\<close> were written.
\<close>

definition prepend :: "byte list \<Rightarrow> error + (bool \<times> byte list) \<Rightarrow> error + (bool \<times> byte list)" where
  "prepend bs r = bindE r (\<lambda>okw. Inr (fst okw, bs @ snd okw))"

text \<open>\<^verbatim>\<open>prog[i]\<close> with a \<^verbatim>\<open>size_t\<close> index, and the bytes of its \<^verbatim>\<open>v32\<close> as a \<^verbatim>\<open>uint32_t\<close>.\<close>

definition at :: "Instruction list \<Rightarrow> nat \<Rightarrow> error + Instruction" where
  "at p i = (if i < length p then Inr (p ! i) else Inl OutOfBounds)"

definition v32_at :: "Instruction list \<Rightarrow> nat \<Rightarrow> error + byte list" where
  "v32_at p i = bindE (at p i) (\<lambda>code. bindE (v32_of code) (\<lambda>v. Inr (WriteUint v)))"

text \<open>
  The loop of \<^verbatim>\<open>Write\<close> over \<^verbatim>\<open>pc\<close> (lines 450-506). The case of \<^verbatim>\<open>Output\<close> and
  \<^verbatim>\<open>OutputBreak\<close> has no \<^verbatim>\<open>break\<close> after its last statement: with \<^verbatim>\<open>jump == 0\<close> control
  falls into \<^verbatim>\<open>default\<close>, which returns \<^verbatim>\<open>false\<close>.
\<close>

function write_loop :: "Instruction list \<Rightarrow> nat \<Rightarrow> error + (bool \<times> byte list)" where
  "write_loop p pc =
     (if pc < length p then
        (case ops_of (p ! pc) of
           Inl e \<Rightarrow> Inl e
         | Inr (op, ch, jump) \<Rightarrow>
             prepend (WriteUint op @ WriteUint ch)
               (if decode op = Some Accept \<or> decode op = Some AcceptBreak then
                  (if ch = 0 then write_loop p (pc + 1)
                   else (case v32_at p (pc + 1) of Inl e \<Rightarrow> Inl e | Inr to \<Rightarrow>
                         case v32_at p (pc + 2) of Inl e \<Rightarrow> Inl e | Inr from \<Rightarrow>
                           prepend (to @ from) (write_loop p (pc + 3))))
                else if decode op = Some Match \<or> decode op = Some Break then
                  prepend (WriteUint jump)
                    (if jump \<noteq> 0 then write_loop p (pc + 1)
                     else (case v32_at p (pc + 1) of Inl e \<Rightarrow> Inl e | Inr ext \<Rightarrow>
                             prepend ext (write_loop p (pc + 2))))
                else if decode op = Some Output \<or> decode op = Some OutputBreak then
                  prepend (WriteUint jump)
                    (case v32_at p (pc + 1) of Inl e \<Rightarrow> Inl e | Inr out \<Rightarrow>
                       prepend out
                         (if jump \<noteq> 0 then write_loop p (pc + 2)
                          else (case v32_at p (pc + 2) of Inl e \<Rightarrow> Inl e | Inr ext \<Rightarrow>
                                  Inr (False, ext))))
                else Inr (False, [])))
      else Inr (True, []))"
  by pat_completeness auto
termination
  by (relation "measure (\<lambda>(p, pc). length p - pc)") auto

declare write_loop.simps [simp del]

text \<open>\<^verbatim>\<open>dataLen\<close> and \<^verbatim>\<open>progLen\<close> are the sizes of the two vectors, as \<^verbatim>\<open>size_t\<close>.\<close>

definition Write :: "FST \<Rightarrow> error + (bool \<times> byte list)" where
  "Write F =
     prepend (WriteUint (word_of_nat (length (data F)) :: 64 word) @
              concat (map WriteUint (data F)))
       (prepend (WriteUint (word_of_nat (length (prog F)) :: 64 word))
          (write_loop (prog F) 0))"

text \<open>The loop of \<^verbatim>\<open>Read\<close> that fills \<^verbatim>\<open>data\<close> (lines 515-517).\<close>

fun read_data :: "nat \<Rightarrow> byte list \<Rightarrow> int32 list \<Rightarrow> error + (int32 list \<times> byte list)" where
  "read_data 0 bs d = Inr (d, bs)"
| "read_data (Suc n) bs d = bindE (ReadUint bs) (\<lambda>vr. read_data n (snd vr) (d @ [fst vr]))"

definition read_v32 :: "byte list \<Rightarrow> error + (Instruction \<times> byte list)" where
  "read_v32 bs = bindE (ReadUint bs) (\<lambda>vr. Inr (V32 (fst vr), snd vr))"

text \<open>
  One pass of the loop of \<^verbatim>\<open>Read\<close> over \<^verbatim>\<open>pc\<close> (lines 522-576): the cells pushed and the
  rest of the stream, with \<open>True\<close> where the \<^verbatim>\<open>switch\<close> is left by \<^verbatim>\<open>break\<close> and \<open>False\<close>
  where \<^verbatim>\<open>default\<close> returns.
\<close>

definition read_instr ::
  "byte list \<Rightarrow> Instruction list \<Rightarrow> error + (bool \<times> Instruction list \<times> byte list)" where
  "read_instr bs p =
     bindE (ReadUint bs) (\<lambda>opr.
     bindE (ReadUint (snd opr)) (\<lambda>chr.
     let op = fst opr :: byte; ch = fst chr :: byte; bs1 = snd chr in
     if decode op = Some Accept \<or> decode op = Some AcceptBreak then
       (let p1 = p @ [Ops op ch 0] in
        if ch = 0 then Inr (True, p1, bs1)
        else bindE (read_v32 bs1) (\<lambda>to.
             bindE (read_v32 (snd to)) (\<lambda>from.
             Inr (True, p1 @ [fst to, fst from], snd from))))
     else if decode op = Some Match \<or> decode op = Some Break then
       bindE (ReadUint bs1) (\<lambda>jr.
         let p1 = p @ [Ops op ch (fst jr)] in
         if fst jr \<noteq> 0 then Inr (True, p1, snd jr)
         else bindE (read_v32 (snd jr)) (\<lambda>ext. Inr (True, p1 @ [fst ext], snd ext)))
     else if decode op = Some Output \<or> decode op = Some OutputBreak then
       bindE (ReadUint bs1) (\<lambda>jr.
       bindE (read_v32 (snd jr)) (\<lambda>out.
         let p1 = p @ [Ops op ch (fst jr), fst out] in
         if fst jr \<noteq> 0 then Inr (True, p1, snd out)
         else bindE (read_v32 (snd out)) (\<lambda>ext. Inr (True, p1 @ [fst ext], snd ext))))
     else Inr (False, p, bs1)))"

fun read_prog ::
  "nat \<Rightarrow> byte list \<Rightarrow> Instruction list \<Rightarrow> error + (bool \<times> Instruction list \<times> byte list)" where
  "read_prog 0 bs p = Inr (True, p, bs)"
| "read_prog (Suc n) bs p =
     bindE (read_instr bs p) (\<lambda>r.
       if fst r then read_prog n (snd (snd r)) (fst (snd r)) else Inr r)"

text \<open>
  \<^verbatim>\<open>v.reserve(n)\<close> on a vector of cells of \<open>width\<close> bytes. Nothing is allocated if the
  vector already has room for \<open>n\<close> cells (its capacity is taken to be its size); otherwise a
  block of \<open>n * width\<close> bytes is requested, and the call throws if the allocator does not
  grant it. \<open>mem\<close> is the size of the largest block the allocator grants. The two calls of
  \<^verbatim>\<open>reserve\<close> in \<^verbatim>\<open>Read\<close> take their size from the stream; every other allocation of the
  program is taken to succeed.
\<close>

definition reserve :: "nat \<Rightarrow> nat \<Rightarrow> nat \<Rightarrow> nat \<Rightarrow> error + unit" where
  "reserve mem len n width =
     (if n \<le> len then Inr ()
      else if n * width \<le> mem then Inr ()
      else Inl AllocFailed)"

text \<open>
  \<^verbatim>\<open>Read\<close> appends to the vectors of the \<^verbatim>\<open>FST\<close> it is called on; the result is its return
  value and that \<^verbatim>\<open>FST\<close>. Both vectors have cells of four bytes.
\<close>

definition Read :: "nat \<Rightarrow> FST \<Rightarrow> byte list \<Rightarrow> error + (bool \<times> FST)" where
  "Read mem F bs =
     bindE (ReadUint bs) (\<lambda>dl.
     bindE (reserve mem (length (data F)) (unat (fst dl :: 64 word)) 4) (\<lambda>u.
     bindE (read_data (unat (fst dl)) (snd dl) (data F)) (\<lambda>d.
     bindE (ReadUint (snd d)) (\<lambda>pl.
     bindE (reserve mem (length (prog F)) (unat (fst pl :: 64 word)) 4) (\<lambda>u.
     bindE (read_prog (unat (fst pl)) (snd pl) (prog F)) (\<lambda>r.
     Inr (fst r, \<lparr>prog = fst (snd r), data = fst d\<rparr>)))))))"

section \<open>The builder: \<^verbatim>\<open>State\<close>, \<^verbatim>\<open>Mast\<close> and \<^verbatim>\<open>buildMAST\<close>\<close>

subsection \<open>\<^verbatim>\<open>std::unordered_map\<close>\<close>

text \<open>
  An \<^verbatim>\<open>unordered_map\<close> is a list of key-value pairs with at most one pair per key.
  \<^verbatim>\<open>insert\<close> adds a pair only if the key is absent (it never overwrites); \<^verbatim>\<open>at\<close> throws
  \<^verbatim>\<open>std::out_of_range\<close> on an absent key; \<^verbatim>\<open>operator==\<close> compares the sizes and then looks up
  every pair of the left map in the right one.
\<close>

type_synonym ('k, 'v) umap = "('k \<times> 'v) list"

definition umap_insert :: "'k \<Rightarrow> 'v \<Rightarrow> ('k, 'v) umap \<Rightarrow> ('k, 'v) umap" where
  "umap_insert k v m = (case map_of m k of None \<Rightarrow> m @ [(k, v)] | Some w \<Rightarrow> m)"

definition umap_erase :: "'k \<Rightarrow> ('k, 'v) umap \<Rightarrow> ('k, 'v) umap" where
  "umap_erase k m = filter (\<lambda>kv. fst kv \<noteq> k) m"

definition umap_at :: "('k, 'v) umap \<Rightarrow> 'k \<Rightarrow> error + 'v" where
  "umap_at m k = (case map_of m k of None \<Rightarrow> Inl OutOfRange | Some v \<Rightarrow> Inr v)"

definition umap_eq :: "('k, 'v) umap \<Rightarrow> ('k, 'v) umap \<Rightarrow> bool" where
  "umap_eq a b = (length a = length b \<and> list_all (\<lambda>kv. map_of b (fst kv) = Some (snd kv)) a)"

subsection \<open>\<^verbatim>\<open>Pair\<close> and \<^verbatim>\<open>std::sort\<close>\<close>

record Pair =
  inP :: "byte list"
  outP :: int32

text \<open>
  \<^verbatim>\<open>Pair::operator<\<close> compares the \<^verbatim>\<open>in\<close> strings; \<^verbatim>\<open>std::string\<close> compares bytes as
  \<^verbatim>\<open>unsigned char\<close>, lexicographically, a proper prefix being smaller. That is the order of
  lists over the (unsigned) order of words.
\<close>

definition Pair_less :: "Pair \<Rightarrow> Pair \<Rightarrow> bool" where
  "Pair_less a b = (inP a < inP b)"

text \<open>
  \<^verbatim>\<open>std::sort\<close> promises the result to be ordered by \<^verbatim>\<open>operator<\<close> and to hold the same
  elements; the order of elements with equal keys is unspecified. The embedding sorts by
  insertion and keeps equal keys in their original order; an implementation may order
  them differently (libstdc++ does on more than 16 elements). The properties proved of
  the sorted vector are the two the standard promises, and every example below has
  distinct keys.
\<close>

fun insert_sorted :: "Pair \<Rightarrow> Pair list \<Rightarrow> Pair list" where
  "insert_sorted x [] = [x]"
| "insert_sorted x (y # ys) = (if Pair_less y x then y # insert_sorted x ys else x # y # ys)"

fun std_sort :: "Pair list \<Rightarrow> Pair list" where
  "std_sort [] = []"
| "std_sort (x # xs) = insert_sorted x (std_sort xs)"

subsection \<open>\<^verbatim>\<open>struct State\<close>\<close>

text \<open>
  A \<^verbatim>\<open>shared_ptr<State>\<close> is an address: the index of the state in the heap, the list of
  all \<^verbatim>\<open>State\<close> objects allocated so far. Two pointers are equal iff the addresses are.
  The transition map holds addresses, so a state reached through two pointers is one
  object. \<^verbatim>\<open>std::set<int32_t> tail\<close> is the ascending (signed) list of its elements.
\<close>

type_synonym addr = nat

record State =
  idS :: int
  transS :: "(byte, addr) umap"
  outputS :: "(byte, int32) umap"
  tail :: "int32 list"
  isFinal :: bool
  hcode :: "64 word"

type_synonym heap = "State list"

text \<open>\<^verbatim>\<open>make_shared<State>()\<close> value-initialises: empty containers, zero scalars.\<close>

definition new_State :: State where
  "new_State = \<lparr>idS = 0, transS = [], outputS = [], tail = [], isFinal = False, hcode = 0\<rparr>"

definition set_insert :: "int32 \<Rightarrow> int32 list \<Rightarrow> int32 list" where
  "set_insert t ts = (if t \<in> set ts then ts else insort_key sint t ts)"

definition addTail :: "int32 \<Rightarrow> State \<Rightarrow> State" where
  "addTail t s = s\<lparr>tail := set_insert t (tail s)\<rparr>"

definition removeOutput :: "byte \<Rightarrow> State \<Rightarrow> State" where
  "removeOutput ch s =
     (case map_of (outputS s) ch of
        None \<Rightarrow> s
      | Some v \<Rightarrow>
          s\<lparr>hcode := (if v \<noteq> 0 then hcode s - (ucast ch + scast v) * 8191 else hcode s),
            outputS := umap_erase ch (outputS s)\<rparr>)"

definition setOutput :: "byte \<Rightarrow> int32 \<Rightarrow> State \<Rightarrow> State" where
  "setOutput ch out s =
     (if out = 0 then s
      else s\<lparr>outputS := umap_insert ch out (outputS s),
             hcode := hcode s + (ucast ch + scast out) * 8191\<rparr>)"

text \<open>\<open>next_id\<close> is \<^verbatim>\<open>next->id\<close>, read through the pointer when the transition is set.\<close>

definition setTransition :: "byte \<Rightarrow> addr \<Rightarrow> int \<Rightarrow> State \<Rightarrow> State" where
  "setTransition ch next next_id s =
     s\<lparr>transS := umap_insert ch next (transS s),
       hcode := hcode s + (ucast ch + word_of_int next_id) * 1001\<rparr>"

definition renew :: "State \<Rightarrow> State" where
  "renew s = s\<lparr>transS := [], outputS := [], tail := [], isFinal := False, hcode := 0\<rparr>"

text \<open>\<^verbatim>\<open>State::operator==\<close> on the objects at two addresses.\<close>

definition State_eq :: "heap \<Rightarrow> addr \<Rightarrow> addr \<Rightarrow> bool" where
  "State_eq h a b =
     (if a = b then True
      else if hcode (h ! a) \<noteq> hcode (h ! b) then False
      else if length (transS (h ! a)) \<noteq> length (transS (h ! b)) then False
      else if length (outputS (h ! a)) \<noteq> length (outputS (h ! b)) then False
      else if length (tail (h ! a)) \<noteq> length (tail (h ! b)) then False
      else if isFinal (h ! a) \<noteq> isFinal (h ! b) then False
      else if \<not> umap_eq (transS (h ! a)) (transS (h ! b)) then False
      else if \<not> umap_eq (outputS (h ! a)) (outputS (h ! b)) then False
      else if tail (h ! a) \<noteq> tail (h ! b) then False
      else True)"

subsection \<open>\<^verbatim>\<open>struct Mast\<close>\<close>

record Mast =
  initialState :: "addr option"
  states :: "addr list"
  finalStates :: "addr list"

definition upd :: "heap \<Rightarrow> addr \<Rightarrow> (State \<Rightarrow> State) \<Rightarrow> heap" where
  "upd h a f = h[a := f (h ! a)]"

text \<open>A \<^verbatim>\<open>size_t\<close> stored in an \<^verbatim>\<open>int\<close>: the low 32 bits, read as two's complement.\<close>

definition to_int :: "nat \<Rightarrow> int" where
  "to_int n = sint (word_of_nat n :: 32 word)"

definition addState :: "addr \<Rightarrow> heap \<times> Mast \<Rightarrow> heap \<times> Mast" where
  "addState n hm =
     (let h = fst hm; m = snd hm;
          h1 = upd h n (\<lambda>s. s\<lparr>idS := to_int (length (states m))\<rparr>);
          m1 = m\<lparr>states := states m @ [n]\<rparr>
      in (h1, if isFinal (h1 ! n) then m1\<lparr>finalStates := finalStates m1 @ [n]\<rparr> else m1))"

subsection \<open>\<^verbatim>\<open>commonPrefixLen\<close>\<close>

text \<open>
  \<^verbatim>\<open>std::mismatch(a.begin(), a.end(), b.begin())\<close> walks \<open>a\<close> and reads \<open>b\<close> at the same
  positions without looking at the length of \<open>b\<close>. One position past the end of \<open>b\<close> is
  the terminating zero byte of the string; anything further is outside the string.
\<close>

fun commonPrefixLen :: "byte list \<Rightarrow> byte list \<Rightarrow> error + nat" where
  "commonPrefixLen [] b = Inr 0"
| "commonPrefixLen (x # a) (y # b) =
     (if x = y then bindE (commonPrefixLen a b) (\<lambda>n. Inr (Suc n)) else Inr 0)"
| "commonPrefixLen (x # a) [] =
     (if x = 0 then (if a = [] then Inr 1 else Inl OutOfBounds) else Inr 0)"

text \<open>\<^verbatim>\<open>s[i]\<close> on a \<^verbatim>\<open>std::string\<close>: at \<open>i = size\<close> it is the terminating zero.\<close>

definition str_at :: "byte list \<Rightarrow> nat \<Rightarrow> error + byte" where
  "str_at s i =
     (if i < length s then Inr (s ! i) else if i = length s then Inr 0 else Inl OutOfBounds)"

subsection \<open>\<^verbatim>\<open>buildMAST\<close>\<close>

text \<open>
  The state of the builder: the heap, the \<^verbatim>\<open>Mast\<close> under construction, the registry
  \<^verbatim>\<open>dict\<close> and \<^verbatim>\<open>prev\<close>. The vector \<^verbatim>\<open>buf\<close> is filled once with fresh states and never
  reassigned: \<^verbatim>\<open>buf[i]\<close> is the address \<open>i\<close>. Every index the code uses on \<^verbatim>\<open>buf\<close> is at most
  the length of \<^verbatim>\<open>prev\<close> or of \<^verbatim>\<open>in\<close>, hence inside \<^verbatim>\<open>buf\<close>.
\<close>

record Builder =
  heapB :: heap
  mastB :: Mast
  dictB :: "(64 word, addr list) umap"
  prevB :: "byte list"

definition on_state :: "Builder \<Rightarrow> addr \<Rightarrow> (State \<Rightarrow> State) \<Rightarrow> Builder" where
  "on_state b a f = b\<lparr>heapB := upd (heapB b) a f\<rparr>"

text \<open>\<^verbatim>\<open>buf[a]->setTransition(ch, next)\<close>\<close>

definition link :: "Builder \<Rightarrow> addr \<Rightarrow> byte \<Rightarrow> addr \<Rightarrow> Builder" where
  "link b a ch next = on_state b a (setTransition ch next (idS (heapB b ! next)))"

text \<open>The first state of a bucket that is \<^verbatim>\<open>==\<close> to the state at \<open>a\<close> (lines 777-782).\<close>

definition find_equal :: "heap \<Rightarrow> addr list \<Rightarrow> addr \<Rightarrow> addr option" where
  "find_equal h cs a =
     (case filter (\<lambda>c. State_eq h c a) cs of [] \<Rightarrow> None | c # cs' \<Rightarrow> Some c)"

text \<open>
  Lines 774-785: look \<^verbatim>\<open>buf[i]->hcode\<close> up in \<^verbatim>\<open>dict\<close>; search the bucket, or insert an
  empty bucket.
\<close>

definition lookup :: "Builder \<Rightarrow> addr \<Rightarrow> addr option \<times> Builder" where
  "lookup b a =
     (let hc = hcode (heapB b ! a) in
      case map_of (dictB b) hc of
        Some cs \<Rightarrow> (find_equal (heapB b) cs a, b)
      | None \<Rightarrow> (None, b\<lparr>dictB := dictB b @ [(hc, [])]\<rparr>))"

text \<open>\<^verbatim>\<open>dict.at(hc).push_back(s)\<close>\<close>

definition dict_push :: "Builder \<Rightarrow> 64 word \<Rightarrow> addr \<Rightarrow> error + Builder" where
  "dict_push b hc s =
     (case map_of (dictB b) hc of
        None \<Rightarrow> Inl OutOfRange
      | Some cs \<Rightarrow>
          Inr (b\<lparr>dictB := map (\<lambda>kv. if fst kv = hc then (hc, snd kv @ [s]) else kv) (dictB b)\<rparr>))"

text \<open>\<^verbatim>\<open>make_shared<State>(*buf[a])\<close>: a copy at a fresh address.\<close>

definition clone :: "Builder \<Rightarrow> addr \<Rightarrow> addr \<times> Builder" where
  "clone b a = (length (heapB b), b\<lparr>heapB := heapB b @ [heapB b ! a]\<rparr>)"

text \<open>\<^verbatim>\<open>m->addState(s)\<close>\<close>

definition add_to_mast :: "Builder \<Rightarrow> addr \<Rightarrow> Builder" where
  "add_to_mast b s =
     (let hm = addState s (heapB b, mastB b) in b\<lparr>heapB := fst hm, mastB := snd hm\<rparr>)"

text \<open>The body of the first inner loop (lines 772-793), for one \<open>i\<close>.\<close>

definition freeze :: "Builder \<Rightarrow> nat \<Rightarrow> error + Builder" where
  "freeze b i =
     (let r = lookup b i; b1 = snd r in
      bindE (case fst r of
               Some s \<Rightarrow> Inr (s, b1)
             | None \<Rightarrow>
                 (let c = clone b1 i; s = fst c; b2 = add_to_mast (snd c) s in
                  bindE (dict_push b2 (hcode (heapB b2 ! i)) s) (\<lambda>b3. Inr (s, b3))))
        (\<lambda>sb. let s = fst sb; b4 = on_state (snd sb) i renew
              in Inr (link b4 (i - 1) (prevB b ! (i - 1)) s)))"

fun freeze_loop :: "nat list \<Rightarrow> Builder \<Rightarrow> error + Builder" where
  "freeze_loop [] b = Inr b"
| "freeze_loop (i # is) b = bindE (freeze b i) (freeze_loop is)"

text \<open>
  The body of the loop that flushes \<^verbatim>\<open>buf\<close> after the last pair (lines 823-844). It
  differs from \<open>freeze\<close>: \<^verbatim>\<open>renew\<close> is called only for a state that was cloned, and before
  \<^verbatim>\<open>dict.at(buf[i]->hcode)\<close> is evaluated.
\<close>

definition flush :: "Builder \<Rightarrow> nat \<Rightarrow> error + Builder" where
  "flush b i =
     (let r = lookup b i; b1 = snd r in
      bindE (case fst r of
               Some s \<Rightarrow> Inr (s, b1)
             | None \<Rightarrow>
                 (let c = clone b1 i; s = fst c;
                      b2 = on_state (snd c) i renew;
                      b3 = add_to_mast b2 s in
                  bindE (dict_push b3 (hcode (heapB b3 ! i)) s) (\<lambda>b4. Inr (s, b4))))
        (\<lambda>sb. Inr (link (snd sb) (i - 1) (prevB b ! (i - 1)) (fst sb))))"

fun flush_loop :: "nat list \<Rightarrow> Builder \<Rightarrow> error + Builder" where
  "flush_loop [] b = Inr b"
| "flush_loop (i # is) b = bindE (flush b i) (flush_loop is)"

text \<open>The second inner loop (lines 794-796): \<^verbatim>\<open>buf[i-1]->setTransition(in[i-1], buf[i])\<close>.\<close>

fun extend_loop :: "byte list \<Rightarrow> nat list \<Rightarrow> Builder \<Rightarrow> Builder" where
  "extend_loop inp [] b = b"
| "extend_loop inp (i # is) b = extend_loop inp is (link b (i - 1) (inp ! (i - 1)) i)"

text \<open>
  The third inner loop (lines 800-814), over the remaining values of \<open>j\<close>; it returns the
  builder and the variable \<^verbatim>\<open>out\<close>. The \<^verbatim>\<open>break\<close> leaves the loop with \<^verbatim>\<open>out = 0\<close>.
\<close>

fun redistribute ::
  "byte list \<Rightarrow> nat list \<Rightarrow> Builder \<Rightarrow> int32 \<Rightarrow> error + (Builder \<times> int32)" where
  "redistribute inp [] b out = Inr (b, out)"
| "redistribute inp (j # js) b out =
     bindE (umap_at (outputS (heapB b ! (j - 1))) (inp ! (j - 1))) (\<lambda>v.
       if v = out then Inr (b, 0)
       else bindE (umap_at (outputS (heapB b ! (j - 1))) (inp ! (j - 1))) (\<lambda>outSuff.
         let b1 = on_state b (j - 1) (removeOutput (inp ! (j - 1)));
             b2 = on_state b1 j
                    (\<lambda>s. fold (\<lambda>elem. setOutput (fst elem) outSuff) (transS s) s);
             b3 = (if isFinal (heapB b2 ! j) \<and> outSuff \<noteq> 0
                   then on_state b2 j (addTail outSuff) else b2)
         in redistribute inp js b3 out))"

text \<open>The body of the loop over the sorted pairs (lines 767-821).\<close>

definition process_pair :: "Pair \<Rightarrow> Builder \<Rightarrow> error + Builder" where
  "process_pair pair b =
     (let inp = inP pair; out = outP pair; fZero = (out = 0); prev = prevB b in
      bindE (commonPrefixLen inp prev) (\<lambda>prefixLen.
      bindE (freeze_loop (rev [prefixLen + 1 ..< length prev + 1]) b) (\<lambda>b1.
      let b2 = extend_loop inp [prefixLen + 1 ..< length inp] b1;
          b3 = (if inp \<noteq> prev then on_state b2 (length inp) (\<lambda>s. s\<lparr>isFinal := True\<rparr>)
                else b2)
      in bindE (redistribute inp [1 ..< prefixLen + 1] b3 out) (\<lambda>bo.
         let b4 = fst bo; out' = snd bo in
         bindE (if inp \<noteq> prev then
                  bindE (str_at inp prefixLen) (\<lambda>ch.
                    Inr (on_state b4 prefixLen (setOutput ch out')))
                else if fZero then Inr (on_state b4 (length inp) (addTail out'))
                else if out' \<noteq> 0 then Inr (on_state b4 (length inp) (addTail out'))
                else Inr b4)
           (\<lambda>b5. Inr (b5\<lparr>prevB := inp\<rparr>))))))"

fun process_all :: "Pair list \<Rightarrow> Builder \<Rightarrow> error + Builder" where
  "process_all [] b = Inr b"
| "process_all (p # ps) b = bindE (process_pair p b) (process_all ps)"

definition maxInputWordLen :: "Pair list \<Rightarrow> nat" where
  "maxInputWordLen ps = fold (\<lambda>p m. if length (inP p) > m then length (inP p) else m) ps 0"

text \<open>The builder before the first pair: \<^verbatim>\<open>buf\<close> holds \<open>maxInputWordLen + 1\<close> fresh states.\<close>

definition Builder_init :: "Pair list \<Rightarrow> Builder" where
  "Builder_init ps =
     \<lparr>heapB = replicate (maxInputWordLen ps + 1) new_State,
      mastB = \<lparr>initialState = None, states = [], finalStates = []\<rparr>,
      dictB = [], prevB = []\<rparr>"

text \<open>
  \<^verbatim>\<open>buildMAST\<close> sorts the caller's vector in place, so the embedding returns the vector as
  the call leaves it together with the result: the heap and the \<^verbatim>\<open>Mast\<close>, or the exception.
\<close>

definition buildMAST :: "Pair list \<Rightarrow> Pair list \<times> (error + (heap \<times> Mast))" where
  "buildMAST input =
     (let sorted_input = std_sort input in
      (sorted_input,
       bindE (process_all sorted_input (Builder_init sorted_input)) (\<lambda>b1.
       bindE (flush_loop (rev [1 ..< length (prevB b1) + 1]) b1) (\<lambda>b2.
       let b3 = add_to_mast (b2\<lparr>mastB := (mastB b2)\<lparr>initialState := Some 0\<rparr>\<rparr>) 0
       in Inr (heapB b3, mastB b3)))))"

section \<open>The compiler: \<^verbatim>\<open>Mast::buildMachine\<close>\<close>

text \<open>
  The locals of \<^verbatim>\<open>buildMachine\<close>: the provisional stream \<^verbatim>\<open>prog\<close>, \<^verbatim>\<open>data\<close>, \<^verbatim>\<open>addrMap\<close>, and
  the string behind the pointer \<^verbatim>\<open>err\<close>. A fault in the compiler is reported together with
  the content of \<^verbatim>\<open>*err\<close> at that moment.
\<close>

type_synonym fault = "error \<times> string"

record Compiler =
  progM :: "Instruction list"
  dataM :: "int32 list"
  addrMap :: "(int, int) umap"
  errM :: string

function dec_nat :: "nat \<Rightarrow> string" where
  "dec_nat n =
     (if n < 10 then [char_of (48 + n)] else dec_nat (n div 10) @ [char_of (48 + n mod 10)])"
  by pat_completeness auto
termination
  by (relation "measure id") auto

definition dec_int :: "int \<Rightarrow> string" where
  "dec_int i = (if i < 0 then CHR ''-'' # dec_nat (nat (- i)) else dec_nat (nat i))"

text \<open>
  The message of lines 676-679. \<^verbatim>\<open>ch\<close> is a \<^verbatim>\<open>uint8_t\<close>, which the stream prints as one
  character whatever the base.
\<close>

definition undefined_msg :: "int \<Rightarrow> byte \<Rightarrow> string" where
  "undefined_msg sid ch =
     ''next addr is undefined: state('' @ dec_int sid @ ''), input('' @ [char_of (unat ch)] @ '')''"

definition push :: "Instruction \<Rightarrow> Compiler \<Rightarrow> Compiler" where
  "push code c = c\<lparr>progM := progM c @ [code]\<rparr>"

definition throwing :: "Compiler \<Rightarrow> error + 'a \<Rightarrow> fault + 'a" where
  "throwing c r = (case r of Inl e \<Rightarrow> Inl (e, errM c) | Inr x \<Rightarrow> Inr x)"

text \<open>Lines 674-680: the message is stored only if the successor is not final.\<close>

definition note_undefined :: "State \<Rightarrow> byte \<Rightarrow> State \<Rightarrow> Compiler \<Rightarrow> Compiler" where
  "note_undefined s ch next c =
     (if map_of (addrMap c) (idS next) = None \<and> \<not> isFinal next
      then c\<lparr>errM := undefined_msg (idS s) ch\<rparr> else c)"

text \<open>Lines 682-693; \<open>first\<close> is \<^verbatim>\<open>it == edges.crbegin()\<close>.\<close>

definition choose_op :: "int32 \<Rightarrow> bool \<Rightarrow> Operation" where
  "choose_op out first =
     (if out \<noteq> 0 then (if first then OutputBreak else Output)
      else if first then Break else Match)"

text \<open>
  The body of the loop over the edges of a state (lines 671-708). \<^verbatim>\<open>jump\<close> is a \<^verbatim>\<open>size_t\<close>,
  computed modulo \<open>2 ^ 64\<close>. After the test of line 675 the code reads \<^verbatim>\<open>itAddr->second\<close>
  whether or not \<^verbatim>\<open>itAddr\<close> is \<^verbatim>\<open>end()\<close>.
\<close>

definition emit_edge :: "heap \<Rightarrow> State \<Rightarrow> bool \<Rightarrow> byte \<Rightarrow> Compiler \<Rightarrow> fault + Compiler" where
  "emit_edge h s first ch c =
     bindE (throwing c (umap_at (transS s) ch)) (\<lambda>next.
     bindE (throwing c (umap_at (outputS s) ch)) (\<lambda>out.
     let c1 = note_undefined s ch (h ! next) c in
     case map_of (addrMap c1) (idS (h ! next)) of
       None \<Rightarrow> Inl (EndDeref, errM c1)
     | Some a \<Rightarrow>
         (let jump = nat ((int (length (progM c1)) - a + 1) mod 2 ^ 64);
              op = choose_op out first;
              c2 = (if jump > 65535 then push (V32 (word_of_nat jump)) c1 else c1);
              jump' = (if jump > 65535 then 0 else jump);
              c3 = (if out \<noteq> 0 then push (V32 out) c2 else c2)
          in Inr (push (Ops (opcode op) ch (word_of_nat jump')) c3))))"

fun emit_edges :: "heap \<Rightarrow> State \<Rightarrow> bool \<Rightarrow> byte list \<Rightarrow> Compiler \<Rightarrow> fault + Compiler" where
  "emit_edges h s first [] c = Inr c"
| "emit_edges h s first (ch # chs) c =
     bindE (emit_edge h s first ch c) (emit_edges h s False chs)"

text \<open>Lines 711-719: the two bounds of the tail range, around the tail values.\<close>

definition emit_tail :: "State \<Rightarrow> Compiler \<Rightarrow> Compiler" where
  "emit_tail s c =
     (if tail s \<noteq> [] then
        (let c1 = push (V32 (word_of_nat (length (dataM c)))) c;
             c2 = c1\<lparr>dataM := dataM c1 @ tail s\<rparr>
         in push (V32 (word_of_nat (length (dataM c2)))) c2)
      else c)"

text \<open>Lines 720-730: the accept cell of a final state.\<close>

definition accept_cell :: "State \<Rightarrow> Instruction" where
  "accept_cell s =
     Ops (opcode (if transS s = [] then Accept else AcceptBreak))
         (if tail s \<noteq> [] then 1 else 0) 0"

definition emit_final :: "State \<Rightarrow> Compiler \<Rightarrow> Compiler" where
  "emit_final s c = (if isFinal s then push (accept_cell s) (emit_tail s c) else c)"

text \<open>\<^verbatim>\<open>std::set<uint8_t> edges\<close>, walked from \<^verbatim>\<open>crbegin()\<close>: the keys in descending order.\<close>

definition edges :: "State \<Rightarrow> byte list" where
  "edges s = rev (sort (remdups (map fst (transS s))))"

text \<open>The body of the loop over \<^verbatim>\<open>states\<close> (lines 665-734).\<close>

definition compile_state :: "heap \<Rightarrow> addr \<Rightarrow> Compiler \<Rightarrow> fault + Compiler" where
  "compile_state h a c =
     bindE (emit_edges h (h ! a) True (edges (h ! a)) c) (\<lambda>c1.
     let c2 = emit_final (h ! a) c1
     in Inr (c2\<lparr>addrMap :=
                 umap_insert (idS (h ! a)) (to_int (length (progM c2))) (addrMap c2)\<rparr>))"

fun compile :: "heap \<Rightarrow> addr list \<Rightarrow> Compiler \<Rightarrow> fault + Compiler" where
  "compile h [] c = Inr c"
| "compile h (a # as) c = bindE (compile_state h a c) (compile h as)"

text \<open>The provisional stream: the locals of \<^verbatim>\<open>buildMachine\<close> when the loop is left.\<close>

definition provisional :: "heap \<Rightarrow> Mast \<Rightarrow> string \<Rightarrow> fault + Compiler" where
  "provisional h m err =
     compile h (states m) \<lparr>progM = [], dataM = [], addrMap = [], errM = err\<rparr>"

text \<open>
  \<^verbatim>\<open>std::reverse_copy(first, last, d_first)\<close> writes the source backwards into the cells of
  the destination, starting at \<^verbatim>\<open>d_first\<close>. It does not grow the destination: the cells
  must exist.
\<close>

definition reverse_copy :: "'a list \<Rightarrow> 'a list \<Rightarrow> error + 'a list" where
  "reverse_copy src dst =
     (if length src \<le> length dst then Inr (rev src @ drop (length src) dst)
      else Inl OutOfBounds)"

text \<open>
  Lines 735-738. \<^verbatim>\<open>make_shared<FST>()\<close> gives an \<^verbatim>\<open>FST\<close> whose \<^verbatim>\<open>prog\<close> is the empty
  vector, and that vector is the destination of \<^verbatim>\<open>reverse_copy\<close>. The result is the
  \<^verbatim>\<open>FST\<close> and the final \<^verbatim>\<open>*err\<close>.
\<close>

definition buildMachine :: "heap \<Rightarrow> Mast \<Rightarrow> string \<Rightarrow> fault + (FST \<times> string)" where
  "buildMachine h m err =
     bindE (provisional h m err) (\<lambda>c.
     bindE (throwing c (reverse_copy (progM c) [])) (\<lambda>p.
     Inr (\<lparr>prog = p, data = dataM c\<rparr>, errM c)))"

text \<open>\<^verbatim>\<open>BuildFST\<close>: the caller's vector after the call, and the result.\<close>

definition BuildFST :: "Pair list \<Rightarrow> string \<Rightarrow> Pair list \<times> (fault + (FST \<times> string))" where
  "BuildFST input err =
     (let r = buildMAST input in
      (fst r,
       case snd r of
         Inl e \<Rightarrow> Inl (e, err)
       | Inr hm \<Rightarrow> buildMachine (fst hm) (snd hm) err))"

section \<open>Properties\<close>

subsection \<open>Evaluating the definitions\<close>

text \<open>
  The loops that count down a number are unfolded on numerals one pass at a time, and
  \<open>bindE_weak_cong\<close> keeps the simplifier out of a continuation until the bound result is
  known.
\<close>

lemma write_bytes_numeral [simp]:
  "write_bytes (numeral k) v = ucast v # write_bytes (pred_numeral k) (drop_bit 8 v)"
  by (simp add: numeral_eq_Suc)

lemma read_bytes_numeral [simp]:
  "read_bytes (numeral k) v buf bs =
     (case bs of
        [] \<Rightarrow>
          (case buf of
             None \<Rightarrow> Inl Uninitialised
           | Some b \<Rightarrow> read_bytes (pred_numeral k) (v * 256 OR ucast b) buf [])
      | b # bs' \<Rightarrow> read_bytes (pred_numeral k) (v * 256 OR ucast b) (Some b) bs')"
  by (cases bs) (simp_all add: numeral_eq_Suc)

lemma read_prog_numeral [simp]:
  "read_prog (numeral k) bs p =
     bindE (read_instr bs p) (\<lambda>r.
       if fst r then read_prog (pred_numeral k) (snd (snd r)) (fst (snd r)) else Inr r)"
  by (simp add: numeral_eq_Suc)

lemma read_data_numeral [simp]:
  "read_data (numeral k) bs d =
     bindE (ReadUint bs) (\<lambda>vr. read_data (pred_numeral k) (snd vr) (d @ [fst vr]))"
  by (simp add: numeral_eq_Suc)

lemmas vm_defs = Search_def PrefixSearch_def CommonPrefixSearch_def run_def run_init_def
  run_loop.simps run_cond_def run_body_def run_match_def run_output_def run_accept_def
  accept_outputs_def data_range_def take_jump_def raw_def cell_def int_add_def char_int_def
  l_end_def decode_def Let_def

lemmas write_defs = Write_def prepend_def WriteUint_def write_loop.simps v32_at_def at_def
  decode_def

lemmas read_defs = Read_def reserve_def ReadUint_def read_v32_def read_instr_def decode_def
  Let_def

lemmas builder_defs = buildMAST_def Builder_init_def maxInputWordLen_def new_State_def
  process_pair_def on_state_def upd_def setOutput_def umap_insert_def str_at_def flush_def
  freeze_def lookup_def find_equal_def clone_def add_to_mast_def addState_def to_int_def
  dict_push_def renew_def link_def setTransition_def removeOutput_def umap_erase_def
  umap_at_def addTail_def set_insert_def State_eq_def umap_eq_def Pair_less_def Let_def

lemmas compiler_defs = BuildFST_def buildMachine_def provisional_def compile_state_def
  edges_def emit_final_def accept_cell_def emit_tail_def emit_edge_def choose_op_def
  note_undefined_def throwing_def push_def reverse_copy_def undefined_msg_def dec_int_def


subsection \<open>The integer codec\<close>

lemma write_bytes_little_endian:
  "write_bytes n v = map (\<lambda>i. ucast (drop_bit (8 * i) v)) [0..<n]"
proof (induction n arbitrary: v)
  case 0
  show ?case by simp
next
  case (Suc n)
  have "map (\<lambda>i. ucast (drop_bit (8 * i) v) :: byte) [0..<Suc n] =
        ucast v # map (\<lambda>i. ucast (drop_bit (8 * Suc i) v)) [0..<n]"
    by (simp add: upt_conv_Cons map_Suc_upt[symmetric] del: upt_Suc)
  also have "map (\<lambda>i. ucast (drop_bit (8 * Suc i) v) :: byte) [0..<n] =
        map (\<lambda>i. ucast (drop_bit (8 * i) (drop_bit 8 v))) [0..<n]"
    by (simp add: drop_bit_drop_bit add.commute)
  finally show ?case
    using Suc.IH[of "drop_bit 8 v"] by simp
qed

text \<open>
  \<^verbatim>\<open>WriteUint\<close> emits the \<open>W\<close> bytes of its argument low-order first: byte \<open>i\<close> of the output
  is bits \<open>8 i\<close> to \<open>8 i + 7\<close> of the value.
\<close>

lemma WriteUint_little_endian:
  "WriteUint (v :: 'a::len word) = map (\<lambda>i. ucast (drop_bit (8 * i) v)) [0..<LENGTH('a) div 8]"
  by (simp add: WriteUint_def write_bytes_little_endian)

text \<open>At width 1 the two functions are inverse.\<close>

lemma ReadUint_WriteUint_u8:
  "(ReadUint (WriteUint (v :: 8 word)) :: error + (8 word \<times> byte list)) = Inr (v, [])"
  by (simp add: WriteUint_def ReadUint_def)

text \<open>At width 2, reading back what was written swaps the two bytes of every value.\<close>

lemma ReadUint_WriteUint_u16_swap:
  "(ReadUint (WriteUint (v :: 16 word)) :: error + (16 word \<times> byte list)) =
     Inr (push_bit 8 v OR drop_bit 8 v, [])"
proof -
  have "(ucast (ucast v :: byte) :: 16 word) * 256 OR ucast (ucast (drop_bit 8 v) :: byte)
        = push_bit 8 v OR drop_bit 8 v"
  proof -
    have m: "(ucast (ucast v :: byte) :: 16 word) * 256 = push_bit 8 (ucast (ucast v :: byte))"
      by (simp add: push_bit_eq_mult)
    show ?thesis
      unfolding m
      by (rule bit_word_eqI) (auto simp: bit_simps dest: bit_imp_le_length)
  qed
  then show ?thesis
    by (simp add: WriteUint_def ReadUint_def)
qed

text \<open>
  C6. \<^verbatim>\<open>WriteUint\<close> writes the value \<open>1\<close> of type \<^verbatim>\<open>uint16_t\<close> as the bytes \<open>01 00\<close>, low-order
  first. \<^verbatim>\<open>ReadUint\<close> shifts the value left before each byte it reads, so the first byte
  read ends up high-order: reading the two bytes back yields \<open>256\<close>, not \<open>1\<close>.
\<close>

theorem ReadUint_WriteUint_u16:
  "WriteUint (1 :: 16 word) = [1, 0] \<and>
   (ReadUint (WriteUint (1 :: 16 word)) :: error + (16 word \<times> byte list)) = Inr (256, [])"
  by (simp add: WriteUint_def ReadUint_def numeral_2_eq_2)

subsection \<open>Termination of the interpreter\<close>

lemma run_fuel_enough:
  "run_measure F input r < n \<Longrightarrow> run_fuel n F input r = Some (run_loop F input r)"
proof (induction n arbitrary: r)
  case 0
  then show ?case by simp
next
  case (Suc n)
  show ?case
  proof (cases "run_cond F input r")
    case False
    then show ?thesis by (simp add: run_loop.simps)
  next
    case True
    show ?thesis
    proof (cases "run_body F input r")
      case (Inl e)
      with True show ?thesis by (simp add: run_loop.simps)
    next
      case (Inr oc)
      show ?thesis
      proof (cases oc)
        case (Continue r')
        with Inr True have "run_measure F input r' < run_measure F input r"
          by (simp add: run_measure_decreases)
        with Suc.prems have "run_measure F input r' < n" by simp
        from Suc.IH[OF this] Inr Continue True show ?thesis
          by (simp add: run_loop.simps[of F input r])
      next
        case (L_END r')
        with Inr True show ?thesis by (simp add: run_loop.simps)
      next
        case (Return s)
        with Inr True show ?thesis by (simp add: run_loop.simps)
      qed
    qed
  qed
qed

lemma run_measure_init:
  "run_measure F input run_init < Suc ((length input + 1) * (length (prog F) + 1))"
  by (simp add: run_measure_def run_init_def)

text \<open>
  C9. For every program, data array and query, the loop of \<^verbatim>\<open>run\<close> is left after at most
  \<open>(length input + 1) * (length prog + 1)\<close> passes, with the result of \<open>run\<close> (a list of
  configurations and the accept flag, or one of the faults of type \<open>error\<close>). Each pass
  either consumes a byte of the query or moves the program counter forward
  (\<open>run_body_progress\<close>), and both are bounded by the loop test.
\<close>

theorem run_terminates:
  "run_fuel (Suc ((length input + 1) * (length (prog F) + 1))) F input run_init
     = Some (run F input)"
  unfolding run_def by (rule run_fuel_enough[OF run_measure_init])

subsection \<open>\<^verbatim>\<open>BuildFST\<close> sorts its argument\<close>

lemma mset_insert_sorted: "mset (insert_sorted x xs) = add_mset x (mset xs)"
  by (induction xs) auto

lemma mset_std_sort: "mset (std_sort xs) = mset xs"
  by (induction xs) (auto simp: mset_insert_sorted)

lemma set_insert_sorted: "set (insert_sorted x xs) = insert x (set xs)"
  using mset_insert_sorted[of x xs, THEN arg_cong, of set_mset] by simp

lemma sorted_insert_sorted:
  "sorted (map inP xs) \<Longrightarrow> sorted (map inP (insert_sorted x xs))"
proof (induction xs)
  case Nil
  show ?case by simp
next
  case (Cons y ys)
  show ?case
  proof (cases "Pair_less y x")
    case True
    then have "inP y \<le> inP x"
      by (simp add: Pair_less_def)
    with Cons True show ?thesis
      by (auto simp: set_insert_sorted)
  next
    case False
    then have "inP x \<le> inP y"
      by (simp add: Pair_less_def)
    with Cons.prems False show ?thesis
      by auto
  qed
qed

lemma sorted_std_sort: "sorted (map inP (std_sort xs))"
  by (induction xs) (auto simp: sorted_insert_sorted)

lemma fst_BuildFST: "fst (BuildFST input err) = std_sort input"
  by (simp add: BuildFST_def buildMAST_def Let_def)

text \<open>
  C10. \<^verbatim>\<open>BuildFST\<close> mutates its argument: \<^verbatim>\<open>buildMAST\<close> sorts the caller's vector in place.
  Whatever the outcome of the call, the vector it leaves behind is ordered by the \<^verbatim>\<open>in\<close>
  strings (lexicographically, bytes unsigned) and holds exactly the pairs it held before,
  each with its \<^verbatim>\<open>in\<close> and \<^verbatim>\<open>out\<close> unchanged.
\<close>

theorem BuildFST_sorts_input:
  "sorted (map inP (fst (BuildFST input err))) \<and>
   mset (fst (BuildFST input err)) = mset input"
  by (simp add: fst_BuildFST sorted_std_sort mset_std_sort)

subsection \<open>The scenario \<open>a\<close>, \<open>ab\<close>, \<open>abc\<close>\<close>

definition abc_pairs :: "Pair list" where
  "abc_pairs =
     [\<lparr>inP = [97], outP = 1\<rparr>, \<lparr>inP = [97, 98], outP = 2\<rparr>, \<lparr>inP = [97, 98, 99], outP = 3\<rparr>]"

text \<open>
  C1. For the pairs \<open>(a, 1)\<close>, \<open>(ab, 2)\<close>, \<open>(abc, 3)\<close> the call of \<^verbatim>\<open>BuildFST\<close> ends in the
  exception \<^verbatim>\<open>std::out_of_range\<close>: no \<^verbatim>\<open>FST\<close> is returned that could answer a query.
  Processing \<open>(ab, 2)\<close> erases the output of the edge \<open>a\<close> of \<^verbatim>\<open>buf[0]\<close>; processing
  \<open>(abc, 3)\<close> then calls \<^verbatim>\<open>buf[0]->output.at('a')\<close>.
\<close>

theorem BuildFST_abc: "BuildFST abc_pairs [] = (abc_pairs, Inl (OutOfRange, []))"
  by (simp add: abc_pairs_def builder_defs compiler_defs)

subsection \<open>Output lookups on absent keys\<close>

definition abc_after_ab :: Builder where
  "abc_after_ab =
     \<lparr>heapB =
        [\<lparr>idS = 0, transS = [], outputS = [], tail = [], isFinal = False, hcode = 0\<rparr>,
         \<lparr>idS = 0, transS = [], outputS = [(98, 2)], tail = [1], isFinal = True,
            hcode = 819100\<rparr>,
         \<lparr>idS = 0, transS = [], outputS = [], tail = [], isFinal = True, hcode = 0\<rparr>,
         \<lparr>idS = 0, transS = [], outputS = [], tail = [], isFinal = False, hcode = 0\<rparr>],
      mastB = \<lparr>initialState = None, states = [], finalStates = []\<rparr>,
      dictB = [], prevB = [97, 98]\<rparr>"

definition a0_pairs :: "Pair list" where
  "a0_pairs = [\<lparr>inP = [97], outP = 0\<rparr>]"

definition a0_heap :: heap where
  "a0_heap =
     [\<lparr>idS = 1, transS = [(97, 2)], outputS = [], tail = [], isFinal = False, hcode = 97097\<rparr>,
      \<lparr>idS = 0, transS = [], outputS = [], tail = [], isFinal = False, hcode = 0\<rparr>,
      \<lparr>idS = 0, transS = [], outputS = [], tail = [], isFinal = True, hcode = 0\<rparr>]"

definition a0_mast :: Mast where
  "a0_mast = \<lparr>initialState = Some 0, states = [2, 0], finalStates = [2]\<rparr>"

definition a0_compiler :: Compiler where
  "a0_compiler = \<lparr>progM = [Ops 1 0 0], dataM = [], addrMap = [(0, 1)], errM = []\<rparr>"

lemma abc_first_two:
  "process_all (take 2 abc_pairs) (Builder_init abc_pairs) = Inr abc_after_ab"
  by (simp add: abc_pairs_def abc_after_ab_def builder_defs)

lemma abc_third:
  "process_pair (abc_pairs ! 2) abc_after_ab = Inl OutOfRange"
  by (simp add: abc_pairs_def abc_after_ab_def builder_defs)

lemma a0_buildMAST: "buildMAST a0_pairs = (a0_pairs, Inr (a0_heap, a0_mast))"
  by (simp add: a0_pairs_def a0_heap_def a0_mast_def builder_defs)

lemma a0_first_state:
  "compile_state a0_heap 2 \<lparr>progM = [], dataM = [], addrMap = [], errM = []\<rparr> = Inr a0_compiler"
  by (simp add: a0_heap_def a0_compiler_def builder_defs compiler_defs)

text \<open>
  C3. \<^verbatim>\<open>BuildFST\<close> can fail on well-formed pairs: the output lookup of the redistribution
  step of \<^verbatim>\<open>buildMAST\<close> and the output lookup of the per-edge emission of \<^verbatim>\<open>buildMachine\<close>
  both reach an absent key. In \<^verbatim>\<open>buildMAST\<close>, after \<open>(a, 1)\<close> and \<open>(ab, 2)\<close> the output map
  of \<^verbatim>\<open>buf[0]\<close> is empty, and the redistribution step for \<open>(abc, 3)\<close> throws at \<open>j = 1\<close>. In
  \<^verbatim>\<open>buildMachine\<close>, the MAST of the single pair \<open>(a, 0)\<close> has the edge \<open>a\<close> on its initial
  state and no output for it (\<^verbatim>\<open>setOutput\<close> stores nothing for 0), and the emission of that
  edge throws.
\<close>

theorem output_lookups_throw:
  "process_all (take 2 abc_pairs) (Builder_init abc_pairs) = Inr abc_after_ab \<and>
   redistribute [97, 98, 99] [1, 2] (on_state abc_after_ab 3 (\<lambda>s. s\<lparr>isFinal := True\<rparr>)) 3
     = Inl OutOfRange \<and>
   process_pair (abc_pairs ! 2) abc_after_ab = Inl OutOfRange \<and>
   snd (buildMAST abc_pairs) = Inl OutOfRange \<and>
   snd (buildMAST a0_pairs) = Inr (a0_heap, a0_mast) \<and>
   compile_state a0_heap 2 \<lparr>progM = [], dataM = [], addrMap = [], errM = []\<rparr>
     = Inr a0_compiler \<and>
   emit_edge a0_heap (a0_heap ! 0) True 97 a0_compiler = Inl (OutOfRange, []) \<and>
   snd (BuildFST a0_pairs []) = Inl (OutOfRange, [])"
proof -
  have 1: "redistribute [97, 98, 99] [1, 2]
             (on_state abc_after_ab 3 (\<lambda>s. s\<lparr>isFinal := True\<rparr>)) 3 = Inl OutOfRange"
    by (simp add: abc_after_ab_def builder_defs)
  have 2: "snd (buildMAST abc_pairs) = Inl OutOfRange"
    by (simp add: abc_pairs_def builder_defs)
  have 3: "emit_edge a0_heap (a0_heap ! 0) True 97 a0_compiler = Inl (OutOfRange, [])"
    by (simp add: a0_heap_def a0_compiler_def builder_defs compiler_defs)
  have 4: "snd (BuildFST a0_pairs []) = Inl (OutOfRange, [])"
    by (simp add: BuildFST_def a0_buildMAST)
       (simp add: a0_heap_def a0_mast_def builder_defs compiler_defs)
  show ?thesis
    using abc_first_two abc_third a0_first_state 1 2 3 4 by (simp add: a0_buildMAST)
qed

subsection \<open>Transitions without an output\<close>

definition outputs_defined :: "State \<Rightarrow> bool" where
  "outputs_defined s = list_all (\<lambda>ch. map_of (outputS s) ch \<noteq> None) (map fst (transS s))"

definition ab_ac_pairs :: "Pair list" where
  "ab_ac_pairs = [\<lparr>inP = [97, 98], outP = 1\<rparr>, \<lparr>inP = [97, 99], outP = 2\<rparr>]"

definition ab_ac_builder :: Builder where
  "ab_ac_builder =
     \<lparr>heapB =
        [\<lparr>idS = 0, transS = [(97, 1)], outputS = [], tail = [], isFinal = False,
            hcode = 97097\<rparr>,
         \<lparr>idS = 0, transS = [(98, 3)], outputS = [(98, 1), (99, 2)], tail = [],
            isFinal = False, hcode = 1736298\<rparr>,
         \<lparr>idS = 0, transS = [], outputS = [], tail = [], isFinal = True, hcode = 0\<rparr>,
         \<lparr>idS = 0, transS = [], outputS = [], tail = [], isFinal = True, hcode = 0\<rparr>],
      mastB = \<lparr>initialState = None, states = [3], finalStates = [3]\<rparr>,
      dictB = [(0, [3])], prevB = [97, 99]\<rparr>"

definition ab_ac_heap :: heap where
  "ab_ac_heap =
     [\<lparr>idS = 2, transS = [(97, 1)], outputS = [], tail = [], isFinal = False, hcode = 195195\<rparr>,
      \<lparr>idS = 0, transS = [], outputS = [], tail = [], isFinal = False, hcode = 0\<rparr>,
      \<lparr>idS = 0, transS = [], outputS = [], tail = [], isFinal = True, hcode = 0\<rparr>,
      \<lparr>idS = 0, transS = [], outputS = [], tail = [], isFinal = True, hcode = 0\<rparr>,
      \<lparr>idS = 1, transS = [(98, 3), (99, 3)], outputS = [(98, 1), (99, 2)], tail = [],
         isFinal = False, hcode = 1835397\<rparr>]"

definition ab_ac_mast :: Mast where
  "ab_ac_mast = \<lparr>initialState = Some 0, states = [3, 4, 0], finalStates = [3]\<rparr>"

text \<open>
  C7. After the pairs \<open>(ab, 1)\<close> and \<open>(ac, 2)\<close> have been processed, \<^verbatim>\<open>buf[0]\<close> has the
  transition \<open>a\<close> and an empty output map (the redistribution step erased the output of
  that edge), and the same holds for the initial state of the final MAST: a key of the
  transition map that is not a key of the output map.
\<close>

theorem transition_without_output:
  "process_all ab_ac_pairs (Builder_init ab_ac_pairs) = Inr ab_ac_builder \<and>
   map fst (transS (heapB ab_ac_builder ! 0)) = [97] \<and>
   map fst (outputS (heapB ab_ac_builder ! 0)) = [] \<and>
   \<not> outputs_defined (heapB ab_ac_builder ! 0) \<and>
   buildMAST ab_ac_pairs = (ab_ac_pairs, Inr (ab_ac_heap, ab_ac_mast)) \<and>
   map fst (transS (ab_ac_heap ! 0)) = [97] \<and>
   map fst (outputS (ab_ac_heap ! 0)) = [] \<and>
   \<not> outputs_defined (ab_ac_heap ! 0)"
proof -
  have 1: "process_all ab_ac_pairs (Builder_init ab_ac_pairs) = Inr ab_ac_builder"
    by (simp add: ab_ac_pairs_def ab_ac_builder_def builder_defs)
  have 2: "buildMAST ab_ac_pairs = (ab_ac_pairs, Inr (ab_ac_heap, ab_ac_mast))"
    by (simp add: ab_ac_pairs_def ab_ac_heap_def ab_ac_mast_def builder_defs)
  show ?thesis
    using 1 2 by (simp add: ab_ac_builder_def ab_ac_heap_def outputs_defined_def)
qed

subsection \<open>The final step of the compiler\<close>

definition a1_pairs :: "Pair list" where
  "a1_pairs = [\<lparr>inP = [97], outP = 1\<rparr>]"

definition a1_heap :: heap where
  "a1_heap =
     [\<lparr>idS = 1, transS = [(97, 2)], outputS = [(97, 1)], tail = [], isFinal = False,
         hcode = 899815\<rparr>,
      \<lparr>idS = 0, transS = [], outputS = [], tail = [], isFinal = False, hcode = 0\<rparr>,
      \<lparr>idS = 0, transS = [], outputS = [], tail = [], isFinal = True, hcode = 0\<rparr>]"

definition a1_mast :: Mast where
  "a1_mast = \<lparr>initialState = Some 0, states = [2, 0], finalStates = [2]\<rparr>"

lemma buildMachine_prog_empty:
  "buildMachine h m err = Inr (F, e) \<Longrightarrow> prog F = []"
  by (auto simp: buildMachine_def bindE_Inr throwing_def reverse_copy_def
      split: sum.splits if_splits)

text \<open>
  C4. For the MAST of the single pair \<open>(a, 1)\<close> the provisional stream has three cells.
  \<^verbatim>\<open>reverse_copy\<close> is given the empty \<^verbatim>\<open>prog\<close> of the fresh \<^verbatim>\<open>FST\<close> as destination, so the
  three cells are written outside that vector: no \<^verbatim>\<open>FST\<close> with a three-cell program is
  returned. By \<open>buildMachine_prog_empty\<close>, whenever \<open>buildMachine\<close> returns an \<^verbatim>\<open>FST\<close> its
  program is empty.
\<close>

theorem buildMachine_a1:
  "buildMAST a1_pairs = (a1_pairs, Inr (a1_heap, a1_mast)) \<and>
   provisional a1_heap a1_mast [] =
     Inr \<lparr>progM = [Ops 1 0 0, V32 1, Ops 6 97 1], dataM = [],
          addrMap = [(0, 1), (1, 3)], errM = []\<rparr> \<and>
   buildMachine a1_heap a1_mast [] = Inl (OutOfBounds, [])"
proof -
  have 1: "buildMAST a1_pairs = (a1_pairs, Inr (a1_heap, a1_mast))"
    by (simp add: a1_pairs_def a1_heap_def a1_mast_def builder_defs)
  have 2: "provisional a1_heap a1_mast [] =
     Inr \<lparr>progM = [Ops 1 0 0, V32 1, Ops 6 97 1], dataM = [],
          addrMap = [(0, 1), (1, 3)], errM = []\<rparr>"
    by (simp add: a1_heap_def a1_mast_def builder_defs compiler_defs)
  have 3: "buildMachine a1_heap a1_mast [] = Inl (OutOfBounds, [])"
    unfolding buildMachine_def 2 by (simp add: throwing_def reverse_copy_def)
  show ?thesis
    using 1 2 3 by simp
qed

subsection \<open>The accept cell\<close>

definition a_ab_pairs :: "Pair list" where
  "a_ab_pairs = [\<lparr>inP = [97], outP = 1\<rparr>, \<lparr>inP = [97, 98], outP = 2\<rparr>]"

definition a_ab_heap :: heap where
  "a_ab_heap =
     [\<lparr>idS = 2, transS = [(97, 4)], outputS = [], tail = [], isFinal = False, hcode = 98098\<rparr>,
      \<lparr>idS = 0, transS = [], outputS = [], tail = [], isFinal = False, hcode = 0\<rparr>,
      \<lparr>idS = 0, transS = [], outputS = [], tail = [], isFinal = False, hcode = 0\<rparr>,
      \<lparr>idS = 0, transS = [], outputS = [], tail = [], isFinal = True, hcode = 0\<rparr>,
      \<lparr>idS = 1, transS = [(98, 3)], outputS = [(98, 2)], tail = [1], isFinal = True,
         hcode = 917198\<rparr>]"

definition a_ab_mast :: Mast where
  "a_ab_mast = \<lparr>initialState = Some 0, states = [3, 4, 0], finalStates = [3, 4]\<rparr>"

lemma accept_cell_fields:
  "accept_cell s =
     Ops (if transS s = [] then opcode Accept else opcode AcceptBreak)
         (if tail s = [] then 0 else 1) 0"
  by (simp add: accept_cell_def)

lemma emit_final_last:
  "isFinal s \<Longrightarrow> progM (emit_final s c) = progM (emit_tail s c) @ [accept_cell s]"
  by (simp add: emit_final_def push_def)

text \<open>
  C5. In the MAST of \<open>(a, 1)\<close>, \<open>(ab, 2)\<close> the final state at address 3 has no outgoing
  transition and its accept cell has opcode \<^verbatim>\<open>Accept\<close>; the final state at address 4 has
  the transition \<open>b\<close> and its accept cell has opcode \<^verbatim>\<open>AcceptBreak\<close>. The character field
  is 1 exactly for the state with a tail, and the jump field is 0 (\<open>accept_cell_fields\<close>
  states the three fields for every state). The stream shown is the one emitted for these
  two states, the first two of the MAST; the third is the initial state, whose edge \<open>a\<close>
  has no output.
\<close>

theorem accept_cell_swapped:
  "buildMAST a_ab_pairs = (a_ab_pairs, Inr (a_ab_heap, a_ab_mast)) \<and>
   isFinal (a_ab_heap ! 3) \<and> transS (a_ab_heap ! 3) = [] \<and>
   accept_cell (a_ab_heap ! 3) = Ops (opcode Accept) 0 0 \<and>
   isFinal (a_ab_heap ! 4) \<and> transS (a_ab_heap ! 4) = [(98, 3)] \<and>
   accept_cell (a_ab_heap ! 4) = Ops (opcode AcceptBreak) 1 0 \<and>
   compile a_ab_heap [3, 4] \<lparr>progM = [], dataM = [], addrMap = [], errM = []\<rparr> =
     Inr \<lparr>progM = [Ops (opcode Accept) 0 0,
                    V32 2, Ops (opcode OutputBreak) 98 1, V32 0, V32 1,
                    Ops (opcode AcceptBreak) 1 0],
          dataM = [1], addrMap = [(0, 1), (1, 6)], errM = []\<rparr>"
proof -
  have 1: "buildMAST a_ab_pairs = (a_ab_pairs, Inr (a_ab_heap, a_ab_mast))"
    by (simp add: a_ab_pairs_def a_ab_heap_def a_ab_mast_def builder_defs)
  have 2: "compile a_ab_heap [3, 4] \<lparr>progM = [], dataM = [], addrMap = [], errM = []\<rparr> =
     Inr \<lparr>progM = [Ops (opcode Accept) 0 0,
                    V32 2, Ops (opcode OutputBreak) 98 1, V32 0, V32 1,
                    Ops (opcode AcceptBreak) 1 0],
          dataM = [1], addrMap = [(0, 1), (1, 6)], errM = []\<rparr>"
    by (simp add: a_ab_heap_def builder_defs compiler_defs)
  show ?thesis
    using 1 2 by (simp add: a_ab_heap_def accept_cell_def)
qed

subsection \<open>A successor without an address\<close>

definition orphan_heap :: heap where
  "orphan_heap =
     [new_State\<lparr>transS := [(97, 1)], outputS := [(97, 1)]\<rparr>,
      new_State\<lparr>idS := 5, isFinal := True\<rparr>]"

definition lost_heap :: heap where
  "lost_heap =
     [new_State\<lparr>transS := [(97, 1)], outputS := [(97, 1)]\<rparr>,
      new_State\<lparr>idS := 5\<rparr>]"

definition root_only :: Mast where
  "root_only = \<lparr>initialState = Some 0, states = [0], finalStates = []\<rparr>"

text \<open>
  What the emission of one edge does when \<^verbatim>\<open>addrMap\<close> has no entry for the successor: the
  message is stored in \<^verbatim>\<open>*err\<close> only if the successor is not final (the test of line 675),
  and in both cases line 681 goes on to read \<^verbatim>\<open>itAddr->second\<close> through the \<^verbatim>\<open>end()\<close>
  iterator, since no \<^verbatim>\<open>return\<close> follows the assignment to \<^verbatim>\<open>*err\<close>.
\<close>

lemma emit_edge_unregistered:
  assumes "map_of (transS s) ch = Some next"
    and "map_of (outputS s) ch = Some out"
    and "map_of (addrMap c) (idS (h ! next)) = None"
  shows "emit_edge h s first ch c =
           Inl (EndDeref, if isFinal (h ! next) then errM c else undefined_msg (idS s) ch) \<and>
         take 22 (undefined_msg (idS s) ch) = ''next addr is undefined''"
  using assms
  by (simp add: emit_edge_def throwing_def umap_at_def note_undefined_def undefined_msg_def)

text \<open>
  C8. In both heaps the state at address 0 has the edge \<open>a\<close> to the state at address 1,
  whose id has no entry in \<^verbatim>\<open>addrMap\<close>. Where that successor is not final, \<^verbatim>\<open>buildMachine\<close>
  assigns the message to \<^verbatim>\<open>*err\<close> and then, without returning, dereferences the \<^verbatim>\<open>end()\<close>
  iterator: the call does not come back with the error string. Where the successor is
  final, the test of line 675 skips the message, and the same dereference follows with
  \<^verbatim>\<open>*err\<close> still empty.
\<close>

theorem unregistered_successor_not_surfaced:
  "map_of (transS (lost_heap ! 0)) 97 = Some 1 \<and>
   \<not> isFinal (lost_heap ! 1) \<and>
   idS (lost_heap ! 1) \<notin> set (map idS (map ((!) lost_heap) (states root_only))) \<and>
   buildMachine lost_heap root_only [] =
     Inl (EndDeref, ''next addr is undefined: state(0), input(a)'') \<and>
   map_of (transS (orphan_heap ! 0)) 97 = Some 1 \<and>
   isFinal (orphan_heap ! 1) \<and>
   idS (orphan_heap ! 1) \<notin> set (map idS (map ((!) orphan_heap) (states root_only))) \<and>
   buildMachine orphan_heap root_only [] = Inl (EndDeref, [])"
  by (simp add: lost_heap_def orphan_heap_def root_only_def builder_defs compiler_defs
      char_of_def bit_0)

subsection \<open>Serialisation\<close>

definition F_a1 :: FST where
  "F_a1 = \<lparr>prog = rev [Ops 1 0 0, V32 1, Ops 6 97 1], data = []\<rparr>"

definition F_long :: FST where
  "F_long = \<lparr>prog = [Ops 5 97 0, V32 7, V32 1, Ops 2 0 0], data = []\<rparr>"


text \<open>
  Two programs assembled by hand, outside the range of \<^verbatim>\<open>BuildFST\<close>. \<open>F_a1\<close> is the reversal
  of the provisional stream of the pair \<open>(a, 1)\<close>; it answers \<open>Search a\<close> with \<open>[1]\<close>. \<^verbatim>\<open>Write\<close>
  succeeds on it and writes \<^verbatim>\<open>progLen = 3\<close> low-order first. \<^verbatim>\<open>Read\<close> takes the same eight bytes
  high-order first, as \<open>3 * 2 ^ 56\<close> instructions to read. It asks for that many cells,
  \<open>3 * 2 ^ 58\<close> bytes; if the allocator grants them, it runs off the end of the stream after
  the second instruction. \<open>F_long\<close> holds an \<^verbatim>\<open>Output\<close> cell with \<^verbatim>\<open>jump == 0\<close> and answers
  \<open>Search a\<close> with \<open>[7]\<close>; \<^verbatim>\<open>Write\<close> returns \<^verbatim>\<open>false\<close> on it.
\<close>

lemma Write_Read_nonempty:
  "Search F_a1 [97] = Inr [1] \<and>
   Write F_a1 =
     Inr (True, [0, 0, 0, 0, 0, 0, 0, 0, 3, 0, 0, 0, 0, 0, 0, 0,
                 6, 97, 1, 0, 1, 0, 0, 0, 1, 0]) \<and>
   Read mem \<lparr>prog = [], data = []\<rparr>
        [0, 0, 0, 0, 0, 0, 0, 0, 3, 0, 0, 0, 0, 0, 0, 0, 6, 97, 1, 0, 1, 0, 0, 0, 1, 0]
     = Inl (if 3 * 2 ^ 58 \<le> mem then Uninitialised else AllocFailed) \<and>
   Search F_long [97] = Inr [7] \<and>
   Write F_long =
     Inr (False, [0, 0, 0, 0, 0, 0, 0, 0, 4, 0, 0, 0, 0, 0, 0, 0,
                  5, 97, 0, 0, 7, 0, 0, 0, 1, 0, 0, 0])"
proof -
  have 1: "Search F_a1 [97] = Inr [1]"
    by (simp add: F_a1_def vm_defs)
  have 2: "Write F_a1 =
     Inr (True, [0, 0, 0, 0, 0, 0, 0, 0, 3, 0, 0, 0, 0, 0, 0, 0,
                 6, 97, 1, 0, 1, 0, 0, 0, 1, 0])"
    by (simp add: F_a1_def write_defs)
  have 3: "Read mem \<lparr>prog = [], data = []\<rparr>
        [0, 0, 0, 0, 0, 0, 0, 0, 3, 0, 0, 0, 0, 0, 0, 0, 6, 97, 1, 0, 1, 0, 0, 0, 1, 0]
     = Inl (if 3 * 2 ^ 58 \<le> mem then Uninitialised else AllocFailed)"
  proof (cases "(864691128455135232 :: nat) \<le> mem")
    case True
    then show ?thesis
      by (simp add: read_defs cong: bindE_weak_cong)
  next
    case False
    then show ?thesis
      by (simp add: read_defs cong: bindE_weak_cong)
  qed
  have 4: "Search F_long [97] = Inr [7]"
    by (simp add: F_long_def vm_defs)
  have 5: "Write F_long =
     Inr (False, [0, 0, 0, 0, 0, 0, 0, 0, 4, 0, 0, 0, 0, 0, 0, 0,
                  5, 97, 0, 0, 7, 0, 0, 0, 1, 0, 0, 0])"
    by (simp add: F_long_def write_defs)
  show ?thesis
    using 1 2 3 4 5 by simp
qed

subsection \<open>The round trip of a built \<^verbatim>\<open>FST\<close>\<close>











end
